theory Spec2Isabelle
  imports Main "HOL-Library.AList" "HOL-Library.Sublist"
begin

section \<open>Python strings\<close>

text \<open>
  A Python \<^verbatim>\<open>str\<close> is a sequence of Unicode code points; a code point is a natural
  number. \<open>py\<close> turns a literal of the source into that representation.
\<close>

type_synonym pystr = "nat list"

definition py :: "string \<Rightarrow> pystr" where
  "py s = map of_char s"

text \<open>
  \<^verbatim>\<open>str.isspace\<close> for one code point: the code points of Unicode that Python treats
  as whitespace (the complete list), which \<^verbatim>\<open>str.strip()\<close> and \<^verbatim>\<open>str.split()\<close> use.
\<close>

definition isspace :: "nat \<Rightarrow> bool" where
  "isspace c = (c \<in> set [9, 10, 11, 12, 13, 28, 29, 30, 31, 32, 133, 160, 5760,
       8192, 8193, 8194, 8195, 8196, 8197, 8198, 8199, 8200, 8201, 8202,
       8232, 8233, 8239, 8287, 12288])"

text \<open>
  The case mappings of one code point. Python applies the full Unicode mappings, which
  may give several code points. The table holds the ASCII letters and U+0149 (LATIN
  SMALL LETTER N PRECEDED BY APOSTROPHE, whose upper and title case are U+02BC U+004E);
  it is complete on ASCII. Code points outside it are left as they are, and every
  theorem below that quantifies over the text of a string restricts it to ASCII.
\<close>

definition upper_cp :: "nat \<Rightarrow> pystr" where
  "upper_cp c = (if 97 \<le> c \<and> c \<le> 122 then [c - 32]
                 else if c = 329 then [700, 78] else [c])"

definition title_cp :: "nat \<Rightarrow> pystr" where
  "title_cp c = (if 97 \<le> c \<and> c \<le> 122 then [c - 32]
                 else if c = 329 then [700, 78] else [c])"

definition lower_cp :: "nat \<Rightarrow> pystr" where
  "lower_cp c = (if 65 \<le> c \<and> c \<le> 90 then [c + 32] else [c])"

definition upper :: "pystr \<Rightarrow> pystr" where
  "upper s = concat (map upper_cp s)"

definition lower :: "pystr \<Rightarrow> pystr" where
  "lower s = concat (map lower_cp s)"

text \<open>\<^verbatim>\<open>str.capitalize()\<close>: the first code point in title case, the rest in lower case.\<close>

definition capitalize :: "pystr \<Rightarrow> pystr" where
  "capitalize s = (case s of [] \<Rightarrow> [] | c # cs \<Rightarrow> title_cp c @ lower cs)"

text \<open>\<^verbatim>\<open>str.strip()\<close> with no argument removes leading and trailing whitespace.\<close>

definition strip :: "pystr \<Rightarrow> pystr" where
  "strip s = dropWhile isspace (rev (dropWhile isspace (rev s)))"

text \<open>
  \<^verbatim>\<open>str.split()\<close> with no argument: the maximal runs of non-whitespace, in order.
  \<open>cur\<close> is the word being read.
\<close>

fun split_acc :: "pystr \<Rightarrow> pystr \<Rightarrow> pystr list" where
  "split_acc cur [] = (if cur = [] then [] else [cur])"
| "split_acc cur (c # cs) =
     (if isspace c then (if cur = [] then split_acc [] cs else cur # split_acc [] cs)
      else split_acc (cur @ [c]) cs)"

definition split :: "pystr \<Rightarrow> pystr list" where
  "split s = split_acc [] s"

text \<open>\<^verbatim>\<open>sep.join(words)\<close>.\<close>

fun join :: "pystr \<Rightarrow> pystr list \<Rightarrow> pystr" where
  "join sep [] = []"
| "join sep [w] = w"
| "join sep (w # v # ws) = w @ sep @ join sep (v # ws)"

text \<open>\<^verbatim>\<open>sub in s\<close> for strings: \<open>sub\<close> occurs in \<open>s\<close> as a contiguous run.\<close>

fun contains :: "pystr \<Rightarrow> pystr \<Rightarrow> bool" where
  "contains [] sub = (sub = [])"
| "contains (c # cs) sub = (prefix sub (c # cs) \<or> contains cs sub)"

section \<open>Genre normalization\<close>

text \<open>The set literal \<^verbatim>\<open>words_to_preserve\<close> of \<^verbatim>\<open>normalize_genre\<close>.\<close>

definition words_to_preserve :: "pystr list" where
  "words_to_preserve = map py [''DJ'', ''MC'', ''UK'', ''US'', ''R&B'', ''A&R'', ''EDM'',
     ''IDM'', ''DnB'', ''D&B'', ''J-Pop'', ''K-Pop'', ''EMD'']"

text \<open>The body of the loop over \<^verbatim>\<open>genre.split()\<close>: what is appended for one word.\<close>

definition normalize_word :: "pystr \<Rightarrow> pystr" where
  "normalize_word word =
     (if upper word \<in> set words_to_preserve then upper word else capitalize word)"

definition normalize_genre :: "pystr \<Rightarrow> pystr" where
  "normalize_genre genre =
     (let genre = strip genre
      in join (py '' '') (map normalize_word (split genre)))"



section \<open>Paths\<close>

text \<open>
  A \<^verbatim>\<open>pathlib.Path\<close> (POSIX flavour) is modelled by its string, which \<^verbatim>\<open>str(path)\<close>
  returns. \<open>split_on\<close> is \<^verbatim>\<open>s.split(sep)\<close> for a one-character separator: the fields
  between the separators, empty ones included.
\<close>

fun split_on :: "nat \<Rightarrow> pystr \<Rightarrow> pystr list" where
  "split_on sep [] = [[]]"
| "split_on sep (c # cs) =
     (if c = sep then [] # split_on sep cs
      else (case split_on sep cs of [] \<Rightarrow> [[c]] | f # fs \<Rightarrow> (c # f) # fs))"

text \<open>The root of a POSIX path: \<^verbatim>\<open>//\<close> for exactly two leading slashes, else \<^verbatim>\<open>/\<close>.\<close>

definition path_root :: "pystr \<Rightarrow> pystr list" where
  "path_root p =
     (if take 2 p = py ''//'' \<and> take 3 p \<noteq> py ''///'' then [py ''//'']
      else if take 1 p = py ''/'' then [py ''/'']
      else [])"

text \<open>\<^verbatim>\<open>Path(p).parts\<close>: the root, then the components that are neither empty nor \<^verbatim>\<open>.\<close>\<close>

definition path_parts :: "pystr \<Rightarrow> pystr list" where
  "path_parts p = path_root p @ filter (\<lambda>s. s \<noteq> [] \<and> s \<noteq> py ''.'') (split_on 47 p)"

text \<open>\<^verbatim>\<open>Path(p).name\<close>: the last component, empty when the path has none but its root.\<close>

definition path_name :: "pystr \<Rightarrow> pystr" where
  "path_name p =
     (let parts = path_parts p
      in if length parts = length (path_root p) then [] else last parts)"

text \<open>
  \<^verbatim>\<open>Path(p).suffix\<close>: the name from its last dot on, when that dot is neither the first
  nor the last character of the name.
\<close>

definition path_suffix :: "pystr \<Rightarrow> pystr" where
  "path_suffix p =
     (let name = path_name p;
          after = rev (takeWhile (\<lambda>c. c \<noteq> 46) (rev name))
      in if 46 \<in> set name \<and> after \<noteq> [] \<and> length after + 1 < length name
         then 46 # after else [])"

section \<open>Exceptions, files and the world\<close>

text \<open>The exceptions that occur; all of them are subclasses of \<^verbatim>\<open>Exception\<close>.\<close>

datatype exn =
    PermissionError | FileNotFoundError | ValueError | IndexError | TypeError
  | ID3NoHeaderError | MutagenError | RecursionError

text \<open>
  \<^verbatim>\<open>path.relative_to(base)\<close>: the parts of \<open>path\<close> below \<open>base\<close>; \<^verbatim>\<open>ValueError\<close> when
  \<open>base\<close> is not a prefix of it (for an empty \<open>base\<close>: when \<open>path\<close> is absolute).
\<close>

definition relative_to :: "pystr \<Rightarrow> pystr \<Rightarrow> exn + pystr list" where
  "relative_to path base =
     (let parts = path_parts path; to_parts = path_parts base; n = length to_parts
      in if (if n = 0 then path_root path \<noteq> [] else take n parts \<noteq> to_parts)
         then Inl ValueError else Inr (drop n parts))"

text \<open>
  A file on disk: its audio data, the tag block of its container (\<open>None\<close> when the
  container has no tag block; otherwise the values stored under each tag key, in order),
  its permission bits and its modification time.
\<close>

record disk_file =
  audio_data :: "nat list"
  tag_block :: "(pystr \<times> pystr list) list option"
  mode :: nat
  mtime :: nat

datatype level = DEBUG | INFO | WARNING | ERROR

text \<open>The messages of the \<^verbatim>\<open>logging\<close> calls, one constructor per format string.\<close>

datatype message =
    Known_unsupported pystr pystr
  | Unsupported_type pystr
  | Would_update pystr "pystr option" pystr
  | Would_fix_permissions pystr
  | Permission_error pystr exn
  | Error_updating pystr exn
  | Traceback
  | Backup_failed pystr exn
  | Genre_from_path_failed pystr exn
  | Processing nat int
  | Result_line pystr pystr

text \<open>The calls that reach the file system, as they are attempted.\<close>

datatype io_call = Open pystr | Save pystr | Chmod pystr nat | Copy2 pystr pystr

text \<open>
  The world a call runs in: the files by path, the clock, the log, the trace of
  file-system calls, and what the environment answers to the next file-system calls:
  \<open>faults\<close> holds one entry per coming call, \<open>Some e\<close> when the call raises \<open>e\<close>; calls
  beyond the list succeed.
\<close>

record world =
  files :: "pystr \<Rightarrow> disk_file option"
  faults :: "exn option list"
  clock :: nat
  logs :: "(level \<times> message) list"
  io_trace :: "io_call list"

definition log :: "level \<Rightarrow> message \<Rightarrow> world \<Rightarrow> world" where
  "log lvl msg w = w\<lparr>logs := logs w @ [(lvl, msg)]\<rparr>"

text \<open>A file-system call is recorded and takes the environment's next answer.\<close>

definition io :: "io_call \<Rightarrow> world \<Rightarrow> exn option \<times> world" where
  "io c w =
     (case faults w of
        [] \<Rightarrow> (None, w\<lparr>io_trace := io_trace w @ [c]\<rparr>)
      | f # fs \<Rightarrow> (f, w\<lparr>faults := fs, io_trace := io_trace w @ [c]\<rparr>))"

section \<open>The container library\<close>

text \<open>
  The classes of \<^verbatim>\<open>mutagen\<close> that the source imports. An opened container holds its
  class, its file name and its tags (the tag block of the file when it was opened).
\<close>

datatype audio_class =
    FLAC | EasyID3 | MP3 | MP4 | OggVorbis | OggOpus | OggFLAC | Musepack | MonkeysAudio
  | WavPack | TrueAudio | ASF | AIFF | WAVE | OptimFROG | TAK | DSF | DSDIFF

record audio =
  cls :: audio_class
  filename :: pystr
  tags :: "(pystr \<times> pystr list) list option"

text \<open>
  \<^verbatim>\<open>AudioClass(str(file_path))\<close>. \<^verbatim>\<open>EasyID3\<close> raises when the file has no tag block;
  the other classes open such a file with \<^verbatim>\<open>tags\<close> \<^verbatim>\<open>None\<close>.
\<close>

definition open_container :: "audio_class \<Rightarrow> pystr \<Rightarrow> world \<Rightarrow> (exn + audio) \<times> world" where
  "open_container c path w =
     (case io (Open path) w of
        (Some e, w1) \<Rightarrow> (Inl e, w1)
      | (None, w1) \<Rightarrow>
          (case files w1 path of
             None \<Rightarrow> (Inl FileNotFoundError, w1)
           | Some fl \<Rightarrow>
               if c = EasyID3 \<and> tag_block fl = None then (Inl ID3NoHeaderError, w1)
               else (Inr \<lparr>cls = c, filename = path, tags = tag_block fl\<rparr>, w1)))"

text \<open>\<^verbatim>\<open>audiofile.add_tags()\<close>: an empty tag block; an error when there is one already.\<close>

definition add_tags :: "audio \<Rightarrow> exn + audio" where
  "add_tags a = (if tags a = None then Inr (a\<lparr>tags := Some []\<rparr>) else Inl MutagenError)"

text \<open>\<^verbatim>\<open>audio.save()\<close> writes the tags of the container into the file.\<close>

definition save :: "audio \<Rightarrow> world \<Rightarrow> (exn + unit) \<times> world" where
  "save a w =
     (case io (Save (filename a)) w of
        (Some e, w1) \<Rightarrow> (Inl e, w1)
      | (None, w1) \<Rightarrow>
          (case files w1 (filename a) of
             None \<Rightarrow> (Inl FileNotFoundError, w1)
           | Some fl \<Rightarrow>
               (case tags a of
                  None \<Rightarrow> (Inr (), w1)
                | Some t \<Rightarrow>
                    (Inr (), w1\<lparr>files := (files w1)(filename a \<mapsto>
                                   fl\<lparr>tag_block := Some t, mtime := clock w1\<rparr>)\<rparr>))))"

text \<open>
  \<^verbatim>\<open>hasattr(audio, "get")\<close> and \<^verbatim>\<open>hasattr(audio, "tags")\<close>: every container is a mapping;
  \<^verbatim>\<open>EasyID3\<close> is the tag mapping itself and has no \<^verbatim>\<open>tags\<close> attribute.
\<close>

definition has_get :: "audio \<Rightarrow> bool" where
  "has_get a = True"

definition has_tags :: "audio \<Rightarrow> bool" where
  "has_tags a = (cls a \<noteq> EasyID3)"

text \<open>\<^verbatim>\<open>m.get(key, default)\<close> on the tags, and \<^verbatim>\<open>xs[0]\<close>.\<close>

definition tags_get :: "(pystr \<times> pystr list) list option \<Rightarrow> pystr \<Rightarrow> pystr option list
    \<Rightarrow> pystr option list" where
  "tags_get m key dflt =
     (case m of
        None \<Rightarrow> dflt
      | Some t \<Rightarrow> (case map_of t key of None \<Rightarrow> dflt | Some vs \<Rightarrow> map Some vs))"

definition subscript0 :: "'a list \<Rightarrow> exn + 'a" where
  "subscript0 xs = (case xs of [] \<Rightarrow> Inl IndexError | x # _ \<Rightarrow> Inr x)"

text \<open>
  A value handed to the container: a string or a list of strings. The container stores
  a list; a single string is stored as the list of that string.
\<close>

datatype pyval = Scalar pystr | Listed "pystr list"

definition as_stored :: "pyval \<Rightarrow> pystr list" where
  "as_stored v = (case v of Scalar s \<Rightarrow> [s] | Listed l \<Rightarrow> l)"

text \<open>
  \<^verbatim>\<open>audio.tags[key] = v\<close> raises \<^verbatim>\<open>TypeError\<close> when \<^verbatim>\<open>audio.tags\<close> is \<^verbatim>\<open>None\<close>;
  \<^verbatim>\<open>audio[key] = v\<close> creates the tag block when there is none.
\<close>

definition tags_setitem :: "audio \<Rightarrow> pystr \<Rightarrow> pyval \<Rightarrow> exn + audio" where
  "tags_setitem a key v =
     (case tags a of
        None \<Rightarrow> Inl TypeError
      | Some t \<Rightarrow> Inr (a\<lparr>tags := Some (AList.update key (as_stored v) t)\<rparr>))"

definition audio_setitem :: "audio \<Rightarrow> pystr \<Rightarrow> pyval \<Rightarrow> exn + audio" where
  "audio_setitem a key v =
     (case tags a of
        None \<Rightarrow> Inr (a\<lparr>tags := Some [(key, as_stored v)]\<rparr>)
      | Some t \<Rightarrow> Inr (a\<lparr>tags := Some (AList.update key (as_stored v) t)\<rparr>))"

section \<open>The operating system\<close>

text \<open>\<^verbatim>\<open>os.path.exists\<close>, \<^verbatim>\<open>os.chmod\<close> and \<^verbatim>\<open>shutil.copy2\<close> (data and metadata).\<close>

definition path_exists :: "world \<Rightarrow> pystr \<Rightarrow> bool" where
  "path_exists w path = (files w path \<noteq> None)"

definition chmod :: "pystr \<Rightarrow> nat \<Rightarrow> world \<Rightarrow> (exn + unit) \<times> world" where
  "chmod path m w =
     (case io (Chmod path m) w of
        (Some e, w1) \<Rightarrow> (Inl e, w1)
      | (None, w1) \<Rightarrow>
          (case files w1 path of
             None \<Rightarrow> (Inl FileNotFoundError, w1)
           | Some fl \<Rightarrow> (Inr (), w1\<lparr>files := (files w1)(path \<mapsto> fl\<lparr>mode := m\<rparr>)\<rparr>)))"

definition copy2 :: "pystr \<Rightarrow> pystr \<Rightarrow> world \<Rightarrow> (exn + unit) \<times> world" where
  "copy2 src dst w =
     (case io (Copy2 src dst) w of
        (Some e, w1) \<Rightarrow> (Inl e, w1)
      | (None, w1) \<Rightarrow>
          (case files w1 src of
             None \<Rightarrow> (Inl FileNotFoundError, w1)
           | Some fl \<Rightarrow> (Inr (), w1\<lparr>files := (files w1)(dst \<mapsto> fl)\<rparr>)))"

section \<open>The format table\<close>

text \<open>
  The getter and setter of an entry of \<^verbatim>\<open>FORMAT_HANDLERS\<close>: every getter is
  \<^verbatim>\<open>lambda a, g: g\<close>; a setter is \<^verbatim>\<open>lambda a, g: [g]\<close> or \<^verbatim>\<open>lambda a, g: g\<close>.
\<close>

type_synonym getter = "audio \<Rightarrow> pystr option \<Rightarrow> pystr option"
type_synonym setter = "audio \<Rightarrow> pystr \<Rightarrow> pyval"
type_synonym handler = "audio_class \<times> pystr \<times> getter \<times> setter"

definition get_same :: getter where
  "get_same a g = g"

definition set_list :: setter where
  "set_list a g = Listed [g]"

definition set_scalar :: setter where
  "set_scalar a g = Scalar g"

text \<open>The key \<^verbatim>\<open>"\xa9gen"\<close> of the MP4 family.\<close>

definition mp4_gen :: pystr where
  "mp4_gen = 169 # py ''gen''"

definition FORMAT_HANDLERS :: "(pystr \<times> handler) list" where
  "FORMAT_HANDLERS =
    [(py ''.flac'', (FLAC, py ''genre'', get_same, set_list)),
     (py ''.mp3'', (EasyID3, py ''genre'', get_same, set_scalar)),
     (py ''.mp4'', (MP4, mp4_gen, get_same, set_list)),
     (py ''.m4a'', (MP4, mp4_gen, get_same, set_list)),
     (py ''.m4b'', (MP4, mp4_gen, get_same, set_list)),
     (py ''.aac'', (MP4, mp4_gen, get_same, set_list)),
     (py ''.ogg'', (OggVorbis, py ''genre'', get_same, set_list)),
     (py ''.opus'', (OggOpus, py ''genre'', get_same, set_list)),
     (py ''.oga'', (OggFLAC, py ''genre'', get_same, set_list)),
     (py ''.mpc'', (Musepack, py ''genre'', get_same, set_list)),
     (py ''.ape'', (MonkeysAudio, py ''genre'', get_same, set_list)),
     (py ''.wv'', (WavPack, py ''genre'', get_same, set_list)),
     (py ''.tta'', (TrueAudio, py ''genre'', get_same, set_list)),
     (py ''.wma'', (ASF, py ''WM/Genre'', get_same, set_list)),
     (py ''.aiff'', (AIFF, py ''TCON'', get_same, set_list)),
     (py ''.aif'', (AIFF, py ''TCON'', get_same, set_list)),
     (py ''.wav'', (WAVE, py ''TCON'', get_same, set_list)),
     (py ''.ofr'', (OptimFROG, py ''genre'', get_same, set_list)),
     (py ''.ofs'', (OptimFROG, py ''genre'', get_same, set_list)),
     (py ''.tak'', (TAK, py ''genre'', get_same, set_list)),
     (py ''.dsf'', (DSF, py ''TCON'', get_same, set_list)),
     (py ''.dff'', (DSDIFF, py ''TCON'', get_same, set_list)),
     (py ''.mp2'', (EasyID3, py ''genre'', get_same, set_scalar))]"

section \<open>Backup\<close>

text \<open>\<^verbatim>\<open>backup_file\<close>: the copy is made only when nothing exists at the backup path.\<close>

definition backup_file :: "pystr \<Rightarrow> world \<Rightarrow> bool \<times> world" where
  "backup_file file_path w =
     (let backup_path = file_path @ py ''.bak''
      in if \<not> path_exists w backup_path then
           (case copy2 file_path backup_path w of
              (Inl e, w1) \<Rightarrow> (False, log ERROR (Backup_failed file_path e) w1)
            | (Inr u, w1) \<Rightarrow> (True, w1))
         else (True, w))"

section \<open>Setting the genre tag\<close>

text \<open>
  The statements of the \<^verbatim>\<open>try\<close> block of \<^verbatim>\<open>set_genre_tag\<close> either raise, return from
  the function, or go on with a value.
\<close>

datatype 'a flow = Raise exn | Return bool | Continue 'a

text \<open>
  The three statements that give an MP3 file without tag block an empty one:
  \<^verbatim>\<open>audiofile = MP3(str(file_path))\<close>, \<^verbatim>\<open>audiofile.add_tags()\<close>, \<^verbatim>\<open>audiofile.save()\<close>.
\<close>

definition add_tag_block :: "pystr \<Rightarrow> world \<Rightarrow> (exn + unit) \<times> world" where
  "add_tag_block file_path w =
     (case open_container MP3 file_path w of
        (Inl e, w1) \<Rightarrow> (Inl e, w1)
      | (Inr audiofile, w1) \<Rightarrow>
          (case add_tags audiofile of
             Inl e \<Rightarrow> (Inl e, w1)
           | Inr audiofile \<Rightarrow> save audiofile w1))"

text \<open>
  Opening the container (the special case for \<^verbatim>\<open>.mp3\<close> and the \<^verbatim>\<open>else\<close> branch). The
  inner \<^verbatim>\<open>except Exception\<close> catches whatever the first opening raises.
\<close>

definition open_audio :: "pystr \<Rightarrow> audio_class \<Rightarrow> pystr \<Rightarrow> bool \<Rightarrow> world
    \<Rightarrow> audio flow \<times> world" where
  "open_audio ext AudioClass file_path dry_run w =
     (if ext = py ''.mp3'' then
        (case open_container AudioClass file_path w of
           (Inr audio, w1) \<Rightarrow> (Continue audio, w1)
         | (Inl e, w1) \<Rightarrow>
             if dry_run then (Return True, w1)
             else
               (case add_tag_block file_path w1 of
                  (Inl e, w2) \<Rightarrow> (Raise e, w2)
                | (Inr u, w2) \<Rightarrow>
                    (case open_container AudioClass file_path w2 of
                       (Inl e, w3) \<Rightarrow> (Raise e, w3)
                     | (Inr audio, w3) \<Rightarrow> (Continue audio, w3))))
      else
        (case open_container AudioClass file_path w of
           (Inl e, w1) \<Rightarrow> (Raise e, w1)
         | (Inr audio, w1) \<Rightarrow> (Continue audio, w1)))"

text \<open>Truth value of \<^verbatim>\<open>audio.tags\<close>: neither \<^verbatim>\<open>None\<close> nor empty.\<close>

definition truthy_tags :: "audio \<Rightarrow> bool" where
  "truthy_tags a = (tags a \<noteq> None \<and> tags a \<noteq> Some [])"

text \<open>The current genre value (\<^verbatim>\<open>current_genre\<close>), \<open>None\<close> for Python's \<^verbatim>\<open>None\<close>.\<close>

definition read_current_genre :: "audio \<Rightarrow> pystr \<Rightarrow> getter \<Rightarrow> exn + pystr option" where
  "read_current_genre audio tag_key getter =
     (if has_get audio then
        (case subscript0 (tags_get (tags audio) tag_key [None]) of
           Inl e \<Rightarrow> Inl e
         | Inr current_tag \<Rightarrow> Inr (getter audio current_tag))
      else if has_tags audio \<and> truthy_tags audio then
        (case subscript0 (tags_get (tags audio) tag_key [None]) of
           Inl e \<Rightarrow> Inl e
         | Inr current_tag \<Rightarrow> Inr (getter audio current_tag))
      else Inr None)"

text \<open>Setting the tag, by \<^verbatim>\<open>audio.tags[tag_key] = ...\<close> or by \<^verbatim>\<open>audio[tag_key] = ...\<close>\<close>

definition write_genre :: "audio \<Rightarrow> pystr \<Rightarrow> setter \<Rightarrow> pystr \<Rightarrow> exn + audio" where
  "write_genre audio tag_key setter genre =
     (if has_tags audio then tags_setitem audio tag_key (setter audio genre)
      else audio_setitem audio tag_key (setter audio genre))"

text \<open>The \<^verbatim>\<open>try\<close> block: the result is what it returns, or the exception that leaves it.\<close>

definition try_block :: "pystr \<Rightarrow> handler \<Rightarrow> pystr \<Rightarrow> pystr \<Rightarrow> bool \<Rightarrow> bool \<Rightarrow> world
    \<Rightarrow> (exn + bool) \<times> world" where
  "try_block ext h file_path genre dry_run make_backup w =
     (case h of (AudioClass, tag_key, getter, setter) \<Rightarrow>
        (case open_audio ext AudioClass file_path dry_run w of
           (Raise e, w1) \<Rightarrow> (Inl e, w1)
         | (Return b, w1) \<Rightarrow> (Inr b, w1)
         | (Continue audio, w1) \<Rightarrow>
             (case read_current_genre audio tag_key getter of
                Inl e \<Rightarrow> (Inl e, w1)
              | Inr current_genre \<Rightarrow>
                  if current_genre = Some genre then (Inr False, w1)
                  else if dry_run then
                    (Inr True, log INFO (Would_update file_path current_genre genre) w1)
                  else
                    (let w2 = (if make_backup then snd (backup_file file_path w1) else w1)
                     in case write_genre audio tag_key setter genre of
                          Inl e \<Rightarrow> (Inl e, w2)
                        | Inr audio \<Rightarrow>
                            (case save audio w2 of
                               (Inl e, w3) \<Rightarrow> (Inl e, w3)
                             | (Inr u, w3) \<Rightarrow> (Inr True, w3))))))"

text \<open>
  The body of \<^verbatim>\<open>set_genre_tag\<close>; \<open>recurse\<close> is the call of \<^verbatim>\<open>set_genre_tag\<close> with the same
  arguments in the handler of \<^verbatim>\<open>PermissionError\<close>. The mode \<^verbatim>\<open>0o664\<close> is 436.
\<close>

definition set_genre_tag_body :: "(world \<Rightarrow> (exn + bool) \<times> world) \<Rightarrow> pystr \<Rightarrow> pystr
    \<Rightarrow> bool \<Rightarrow> bool \<Rightarrow> world \<Rightarrow> (exn + bool) \<times> world" where
  "set_genre_tag_body recurse file_path genre dry_run make_backup w =
     (let ext = lower (path_suffix file_path)
      in case map_of FORMAT_HANDLERS ext of
           None \<Rightarrow>
             (if ext \<in> set [py ''.au'', py ''.acm'']
              then (Inr False, log WARNING (Known_unsupported ext file_path) w)
              else (Inr False, log WARNING (Unsupported_type file_path) w))
         | Some h \<Rightarrow>
             (case try_block ext h file_path genre dry_run make_backup w of
                (Inr b, w1) \<Rightarrow> (Inr b, w1)
              | (Inl e, w1) \<Rightarrow>
                  if e = PermissionError then
                    (if dry_run then (Inr True, log INFO (Would_fix_permissions file_path) w1)
                     else
                       (case chmod file_path 436 w1 of
                          (Inl perm_e, w2) \<Rightarrow>
                            (Inr False, log ERROR (Permission_error file_path perm_e) w2)
                        | (Inr u, w2) \<Rightarrow>
                            (case recurse w2 of
                               (Inl perm_e, w3) \<Rightarrow>
                                 (Inr False, log ERROR (Permission_error file_path perm_e) w3)
                             | (Inr b, w3) \<Rightarrow> (Inr b, w3))))
                  else (Inr False, log DEBUG Traceback (log ERROR (Error_updating file_path e) w1))))"

text \<open>
  \<^verbatim>\<open>set_genre_tag\<close>. Its first argument is the number of nested calls that the
  interpreter's recursion limit still allows: a call beyond it raises \<^verbatim>\<open>RecursionError\<close>.
  The result is \<open>Inr\<close> of the returned value, or \<open>Inl\<close> of an exception that leaves the
  function.
\<close>

primrec set_genre_tag :: "nat \<Rightarrow> pystr \<Rightarrow> pystr \<Rightarrow> bool \<Rightarrow> bool \<Rightarrow> world
    \<Rightarrow> (exn + bool) \<times> world" where
  "set_genre_tag 0 file_path genre dry_run make_backup =
     set_genre_tag_body (\<lambda>w. (Inl RecursionError, w)) file_path genre dry_run make_backup"
| "set_genre_tag (Suc depth) file_path genre dry_run make_backup =
     set_genre_tag_body (set_genre_tag depth file_path genre dry_run make_backup)
       file_path genre dry_run make_backup"

section \<open>The worker\<close>

text \<open>\<^verbatim>\<open>get_genre_from_path\<close>; the \<^verbatim>\<open>except Exception\<close> logs and returns \<^verbatim>\<open>None\<close>.\<close>

definition get_genre_from_path :: "pystr \<Rightarrow> pystr \<Rightarrow> world \<Rightarrow> pystr option \<times> world" where
  "get_genre_from_path path base_folder w =
     (case relative_to path base_folder of
        Inl e \<Rightarrow> (None, log ERROR (Genre_from_path_failed path e) w)
      | Inr parts \<Rightarrow>
          (case parts of
             [] \<Rightarrow> (None, w)
           | genre # rest \<Rightarrow> (Some (normalize_genre genre), w)))"

text \<open>
  The argument tuple of \<^verbatim>\<open>process_file\<close>:
  \<^verbatim>\<open>(file_path, base_folder, dry_run, make_backup, filter_genre)\<close>.
\<close>

type_synonym worker_args = "pystr \<times> pystr \<times> bool \<times> bool \<times> pystr option"

definition process_file :: "nat \<Rightarrow> worker_args \<Rightarrow> world \<Rightarrow> (exn + pystr \<times> pystr) \<times> world" where
  "process_file depth args w =
     (case args of (file_path, base_folder, dry_run, make_backup, filter_genre) \<Rightarrow>
        (case get_genre_from_path file_path base_folder w of
           (genre_opt, w1) \<Rightarrow>
             (case genre_opt of
                None \<Rightarrow> (Inr (file_path, py ''Genre not found''), w1)
              | Some genre \<Rightarrow>
                  if genre = [] then (Inr (file_path, py ''Genre not found''), w1)
                  else if (case filter_genre of
                             None \<Rightarrow> False
                           | Some f \<Rightarrow> f \<noteq> [] \<and> \<not> contains (lower genre) (lower f))
                  then (Inr (file_path, py ''Skipped (genre filter)''), w1)
                  else
                    (case set_genre_tag depth file_path genre dry_run make_backup w1 of
                       (Inl e, w2) \<Rightarrow> (Inl e, w2)
                     | (Inr updated, w2) \<Rightarrow>
                         if updated
                         then (Inr (file_path, py ''Genre set to '' @ [39] @ genre @ [39]), w2)
                         else (Inr (file_path, py ''Already correct or failed''), w2)))))"

section \<open>The scheduler\<close>

text \<open>
  \<^verbatim>\<open>range(start, stop, step)\<close> as a list, and the slice \<^verbatim>\<open>xs[i:j]\<close> of a list.
\<close>

definition py_range :: "int \<Rightarrow> int \<Rightarrow> int \<Rightarrow> exn + int list" where
  "py_range start stop step =
     (if step = 0 then Inl ValueError
      else if 0 < step
      then Inr (map (\<lambda>k. start + int k * step) [0 ..< nat ((stop - start + step - 1) div step)])
      else Inr (map (\<lambda>k. start + int k * step)
                  [0 ..< nat ((start - stop - step - 1) div (- step))]))"

definition py_slice :: "'a list \<Rightarrow> int \<Rightarrow> int \<Rightarrow> 'a list" where
  "py_slice xs i j =
     (let n = int (length xs);
          lo = (if i < 0 then max 0 (n + i) else min i n);
          hi = (if j < 0 then max 0 (n + j) else min j n)
      in take (nat (hi - lo)) (drop (nat lo) xs))"

text \<open>
  \<^verbatim>\<open>pool.map(process_file, batch)\<close>. The workers of the pool run in parallel on files of
  their own; the model runs them one after the other in the order of the batch. An
  exception of a worker is raised again by \<^verbatim>\<open>map\<close> once the batch has run.
\<close>

fun pool_map :: "nat \<Rightarrow> worker_args list \<Rightarrow> world \<Rightarrow> (exn + (pystr \<times> pystr) list) \<times> world" where
  "pool_map depth [] w = (Inr [], w)"
| "pool_map depth (args # batch) w =
     (case process_file depth args w of
        (r, w1) \<Rightarrow>
          (case pool_map depth batch w1 of
             (rs, w2) \<Rightarrow>
               (case r of
                  Inl e \<Rightarrow> (Inl e, w2)
                | Inr res \<Rightarrow> (case rs of Inl e \<Rightarrow> (Inl e, w2) | Inr results \<Rightarrow> (Inr (res # results), w2)))))"

text \<open>The loop over \<^verbatim>\<open>results\<close> that logs each result at the level its text selects.\<close>

definition result_level :: "pystr \<Rightarrow> level" where
  "result_level result =
     (if contains result (py ''Genre set to'') then INFO
      else if contains result (py ''Already correct'') then DEBUG
      else if contains result (py ''Skipped'') then DEBUG
      else WARNING)"

fun log_results :: "(pystr \<times> pystr) list \<Rightarrow> world \<Rightarrow> world" where
  "log_results [] w = w"
| "log_results ((fpath, result) # results) w =
     log_results results (log (result_level result) (Result_line fpath result) w)"

text \<open>
  The loop \<^verbatim>\<open>for i in range(0, total_files, batch_size)\<close> over the values of \<open>i\<close>.
  \<^verbatim>\<open>Pool(num_workers)\<close> raises \<^verbatim>\<open>ValueError\<close> for fewer than one worker. The source returns
  nothing; the model returns the list \<^verbatim>\<open>results\<close> of every iteration.
\<close>

fun batch_loop :: "nat \<Rightarrow> worker_args list \<Rightarrow> int \<Rightarrow> int \<Rightarrow> int list \<Rightarrow> world
    \<Rightarrow> (exn + (pystr \<times> pystr) list list) \<times> world" where
  "batch_loop depth files_and_args batch_size num_workers [] w = (Inr [], w)"
| "batch_loop depth files_and_args batch_size num_workers (i # is) w =
     (let batch = py_slice files_and_args i (i + batch_size)
      in if num_workers < 1 then (Inl ValueError, w)
         else
           (case pool_map depth batch w of
              (Inl e, w1) \<Rightarrow> (Inl e, w1)
            | (Inr results, w1) \<Rightarrow>
                (case batch_loop depth files_and_args batch_size num_workers is
                        (log_results results w1) of
                   (Inl e, w2) \<Rightarrow> (Inl e, w2)
                 | (Inr rss, w2) \<Rightarrow> (Inr (results # rss), w2))))"

definition process_files_in_batches :: "nat \<Rightarrow> worker_args list \<Rightarrow> int \<Rightarrow> int \<Rightarrow> world
    \<Rightarrow> (exn + (pystr \<times> pystr) list list) \<times> world" where
  "process_files_in_batches depth files_and_args batch_size num_workers w =
     (let total_files = length files_and_args;
          w1 = log INFO (Processing total_files batch_size) w
      in case py_range 0 (int total_files) batch_size of
           Inl e \<Rightarrow> (Inl e, w1)
         | Inr starts \<Rightarrow> batch_loop depth files_and_args batch_size num_workers starts w1)"

text \<open>The batches that the loop takes, for a positive batch size.\<close>

definition batches :: "'a list \<Rightarrow> int \<Rightarrow> 'a list list" where
  "batches xs batch_size =
     (case py_range 0 (int (length xs)) batch_size of
        Inl e \<Rightarrow> []
      | Inr starts \<Rightarrow> map (\<lambda>i. py_slice xs i (i + batch_size)) starts)"

section \<open>Predicates of the statements\<close>


section \<open>Example worlds\<close>


definition ex_path :: pystr where
  "ex_path = py ''/Music/Managed/Rock - Goth/Joy Division/track.flac''"

definition ex_genre :: pystr where
  "ex_genre = py ''Rock - Goth''"

definition ex_file :: disk_file where
  "ex_file = \<lparr>audio_data = [102, 76, 97, 67], tag_block = Some [], mode = 420, mtime = 5\<rparr>"

definition ex_world :: world where
  "ex_world = \<lparr>files = [ex_path \<mapsto> ex_file], faults = [], clock = 9, logs = [], io_trace = []\<rparr>"

text \<open>The same file once its genre tag holds the genre of its folder.\<close>

definition ex_file_tagged :: disk_file where
  "ex_file_tagged = ex_file\<lparr>tag_block := Some [(py ''genre'', [ex_genre])], mtime := 9\<rparr>"

definition ex_world_tagged :: world where
  "ex_world_tagged = ex_world\<lparr>files := [ex_path \<mapsto> ex_file_tagged]\<rparr>"





text \<open>An MP3 file without tag block, for which a backup is asked.\<close>

definition ex_mp3 :: pystr where
  "ex_mp3 = py ''/Music/Managed/Rock - Goth/Joy Division/track.mp3''"

definition ex_mp3_file :: disk_file where
  "ex_mp3_file = \<lparr>audio_data = [73, 68, 51], tag_block = None, mode = 420, mtime = 5\<rparr>"

definition ex_mp3_world :: world where
  "ex_mp3_world = \<lparr>files = [ex_mp3 \<mapsto> ex_mp3_file], faults = [], clock = 9, logs = [],
     io_trace = []\<rparr>"

section \<open>Properties of the string operations\<close>























section \<open>Normalization: stability and the preserve set\<close>




text \<open>
  Claim C6 at the members of the preserve set that are not in upper case: the test
  \<^verbatim>\<open>word.upper() in words_to_preserve\<close> never holds for them, so \<^verbatim>\<open>DnB\<close>, \<^verbatim>\<open>J-Pop\<close>
  and \<^verbatim>\<open>K-Pop\<close> are capitalized like any other word, while \<^verbatim>\<open>uk garage\<close> becomes
  \<^verbatim>\<open>UK Garage\<close>.
\<close>

theorem normalize_genre_preserve_set_mixed_case:
  "py ''DnB'' \<in> set words_to_preserve \<and> normalize_genre (py ''DnB'') = py ''Dnb'' \<and>
   py ''J-Pop'' \<in> set words_to_preserve \<and> normalize_genre (py ''J-Pop'') = py ''J-pop'' \<and>
   py ''K-Pop'' \<in> set words_to_preserve \<and> normalize_genre (py ''k-pop'') = py ''K-pop'' \<and>
   normalize_genre (py ''uk garage'') = py ''UK Garage''"
  by (simp add: normalize_genre_def py_def strip_def isspace_def split_def normalize_word_def
      words_to_preserve_def upper_def upper_cp_def capitalize_def title_cp_def lower_def lower_cp_def)

section \<open>What the primitive calls change\<close>

lemma io_world:
  "io c w = (r, w1) \<Longrightarrow> files w1 = files w \<and> logs w1 = logs w \<and> clock w1 = clock w
     \<and> io_trace w1 = io_trace w @ [c]"
  by (auto simp: io_def split: list.splits)

lemma log_world:
  "files (log l m w) = files w" "faults (log l m w) = faults w" "clock (log l m w) = clock w"
  "io_trace (log l m w) = io_trace w" "logs (log l m w) = logs w @ [(l, m)]"
  by (simp_all add: log_def)

lemma open_container_world:
  "open_container c p w = (r, w1) \<Longrightarrow> files w1 = files w \<and> logs w1 = logs w
     \<and> clock w1 = clock w \<and> io_trace w1 = io_trace w @ [Open p]"
  by (auto simp: open_container_def split: prod.splits option.splits if_splits dest: io_world)

lemma open_container_Inr:
  "open_container c p w = (Inr a, w1) \<Longrightarrow>
     cls a = c \<and> filename a = p \<and> (\<exists>fl. files w p = Some fl \<and> tags a = tag_block fl)"
  by (auto simp: open_container_def split: prod.splits option.splits if_splits dest: io_world)

lemma open_audio_dry:
  "open_audio ext c p True w = (r, w1) \<Longrightarrow> files w1 = files w \<and> io_trace w1 = io_trace w @ [Open p]"
  by (auto simp: open_audio_def split: prod.splits sum.splits if_splits dest: open_container_world)

lemma try_block_dry:
  "try_block ext h p g True mb w = (r, w1) \<Longrightarrow> files w1 = files w \<and> io_trace w1 = io_trace w @ [Open p]"
  by (auto simp: try_block_def log_world split: prod.splits sum.splits flow.splits if_splits
      dest: open_audio_dry)

lemma set_genre_tag_body_dry:
  "set_genre_tag_body rc p g True mb w = (r, w1) \<Longrightarrow>
     files w1 = files w \<and> (io_trace w1 = io_trace w \<or> io_trace w1 = io_trace w @ [Open p])"
  by (auto simp: set_genre_tag_body_def Let_def log_world
      split: prod.splits sum.splits option.splits if_splits dest: try_block_dry)

section \<open>Evaluating the example\<close>

lemma py_eq_iff: "py a = py b \<longleftrightarrow> a = b"
  by (simp add: py_def inj_on_def)

lemma py_eq_Nil: "py a = [] \<longleftrightarrow> a = []"
  by (simp add: py_def)

lemma ex_ext: "lower (path_suffix ex_path) = py ''.flac''"
  by (simp add: ex_path_def path_suffix_def path_name_def path_parts_def path_root_def py_def
      lower_def lower_cp_def)

lemma flac_handler:
  "map_of FORMAT_HANDLERS (py ''.flac'') = Some (FLAC, py ''genre'', get_same, set_list)"
  by (simp add: FORMAT_HANDLERS_def py_eq_iff)

lemmas run_defs = set_genre_tag_body_def Let_def try_block_def open_audio_def add_tag_block_def add_tags_def
  open_container_def io_def read_current_genre_def has_get_def
  tags_get_def subscript0_def get_same_def write_genre_def has_tags_def tags_setitem_def
  set_list_def as_stored_def save_def py_eq_iff py_eq_Nil

lemmas ex_defs = ex_world_def ex_file_def ex_file_tagged_def ex_genre_def ex_world_tagged_def


section \<open>Dry run\<close>

text \<open>
  Claim C4: with the dry-run flag, \<^verbatim>\<open>set_genre_tag\<close> leaves every file as it is (audio
  data, tags, permission bits and modification time), whatever the genre, the tag block
  and the faults of the environment are, and it creates no file: the backup path holds
  after the call what it held before.
\<close>

theorem dry_run_changes_no_file:
  "files (snd (set_genre_tag depth file_path genre True make_backup w)) = files w"
proof -
  obtain r w1 where "set_genre_tag depth file_path genre True make_backup w = (r, w1)"
    by (cases "set_genre_tag depth file_path genre True make_backup w")
  moreover from this have "files w1 = files w"
    by (cases depth) (auto dest: set_genre_tag_body_dry)
  ultimately show ?thesis by simp
qed

theorem dry_run_changes_no_file_witness:
  "fst (set_genre_tag 1 ex_path ex_genre True True ex_world) = Inr True \<and>
   files (snd (set_genre_tag 1 ex_path ex_genre True True ex_world)) = files ex_world \<and>
   files ex_world (ex_path @ py ''.bak'') = None"
proof -
  have "fst (set_genre_tag 1 ex_path ex_genre True True ex_world) = Inr True"
    by (simp add: run_defs ex_ext flac_handler ex_defs)
  moreover have "files ex_world (ex_path @ py ''.bak'') = None"
    by (simp add: ex_defs py_eq_Nil)
  ultimately show ?thesis
    using dry_run_changes_no_file [of 1 ex_path ex_genre True ex_world] by simp
qed



lemma body_returned:
  "map_of FORMAT_HANDLERS (lower (path_suffix p)) = Some h \<Longrightarrow>
   try_block (lower (path_suffix p)) h p g dr mb w = (Inr b, w1) \<Longrightarrow>
   set_genre_tag_body rc p g dr mb w = (Inr b, w1)"
  by (simp add: set_genre_tag_body_def Let_def)

lemma body_other_exception:
  "map_of FORMAT_HANDLERS (lower (path_suffix p)) = Some h \<Longrightarrow>
   try_block (lower (path_suffix p)) h p g dr mb w = (Inl e, w1) \<Longrightarrow> e \<noteq> PermissionError \<Longrightarrow>
   set_genre_tag_body rc p g dr mb w =
     (Inr False, log DEBUG Traceback (log ERROR (Error_updating p e) w1))"
  by (simp add: set_genre_tag_body_def Let_def)

lemma body_permission_dry:
  "map_of FORMAT_HANDLERS (lower (path_suffix p)) = Some h \<Longrightarrow>
   try_block (lower (path_suffix p)) h p g True mb w = (Inl PermissionError, w1) \<Longrightarrow>
   set_genre_tag_body rc p g True mb w = (Inr True, log INFO (Would_fix_permissions p) w1)"
  by (simp add: set_genre_tag_body_def Let_def)

lemma body_permission_chmod_fails:
  "map_of FORMAT_HANDLERS (lower (path_suffix p)) = Some h \<Longrightarrow>
   try_block (lower (path_suffix p)) h p g False mb w = (Inl PermissionError, w1) \<Longrightarrow>
   chmod p 436 w1 = (Inl perm_e, w2) \<Longrightarrow>
   set_genre_tag_body rc p g False mb w = (Inr False, log ERROR (Permission_error p perm_e) w2)"
  by (simp add: set_genre_tag_body_def Let_def)

lemma body_permission_retry:
  "map_of FORMAT_HANDLERS (lower (path_suffix p)) = Some h \<Longrightarrow>
   try_block (lower (path_suffix p)) h p g False mb w = (Inl PermissionError, w1) \<Longrightarrow>
   chmod p 436 w1 = (Inr u, w2) \<Longrightarrow>
   set_genre_tag_body rc p g False mb w =
     (case rc w2 of
        (Inl perm_e, w3) \<Rightarrow> (Inr False, log ERROR (Permission_error p perm_e) w3)
      | (Inr b, w3) \<Rightarrow> (Inr b, w3))"
  by (simp add: set_genre_tag_body_def Let_def)





section \<open>Already correct files\<close>







lemma open_audio_filename:
  "open_audio ext c p dr w = (Continue a, w1) \<Longrightarrow> filename a = p"
  by (auto simp: open_audio_def add_tags_def split: prod.splits sum.splits if_splits
      dest: open_container_Inr)

lemma write_genre_tags:
  "write_genre a k st g = Inr a' \<Longrightarrow>
   filename a' = filename a \<and> (\<exists>t. tags a' = Some t \<and> map_of t k = Some (as_stored (st a g)))"
  by (auto simp: write_genre_def tags_setitem_def audio_setitem_def update_conv'
      split: if_splits option.splits)








section \<open>Evaluating the example library\<close>












section \<open>What the worker reports\<close>


lemma process_file_updated:
  assumes "get_genre_from_path p base w = (Some g, w1)" and "g \<noteq> []"
    and "\<not> (case flt of None \<Rightarrow> False | Some f \<Rightarrow> f \<noteq> [] \<and> \<not> contains (lower g) (lower f))"
    and "fst (set_genre_tag depth p g dr mb w1) = Inr True"
  shows "fst (process_file depth (p, base, dr, mb, flt) w) = Inr (p, py ''Genre set to '' @ [39] @ g @ [39])"
proof -
  obtain r w2 where "set_genre_tag depth p g dr mb w1 = (r, w2)"
    by (cases "set_genre_tag depth p g dr mb w1")
  with assms show ?thesis by (simp add: process_file_def)
qed



section \<open>The reported outcome\<close>





section \<open>The worker returns\<close>




section \<open>The backup path\<close>

lemma bak_neq: "p @ py ''.bak'' \<noteq> p"
  by (simp add: py_eq_Nil)

lemma save_other:
  "save a w = (r, w1) \<Longrightarrow> q \<noteq> filename a \<Longrightarrow> files w1 q = files w q"
  by (auto simp: save_def split: prod.splits option.splits dest: io_world)

lemma save_world:
  "save a w = (r, w1) \<Longrightarrow> logs w1 = logs w \<and> io_trace w1 = io_trace w @ [Save (filename a)]"
  by (auto simp: save_def split: prod.splits option.splits dest: io_world)

lemma chmod_other:
  "chmod p m w = (r, w1) \<Longrightarrow> q \<noteq> p \<Longrightarrow> files w1 q = files w q"
  by (auto simp: chmod_def split: prod.splits option.splits dest: io_world)

lemma copy2_raises:
  "copy2 src dst w = (Inl e, w1) \<Longrightarrow> files w1 = files w \<and> logs w1 = logs w"
  by (auto simp: copy2_def split: prod.splits option.splits dest: io_world)

lemma copy2_copied:
  "copy2 src dst w = (Inr u, w1) \<Longrightarrow> files w1 = (files w)(dst := files w src) \<and> files w src \<noteq> None"
  by (auto simp: copy2_def split: prod.splits option.splits dest: io_world)

lemma backup_file_exists:
  "files w (p @ py ''.bak'') = Some b \<Longrightarrow> backup_file p w = (True, w)"
  by (simp add: backup_file_def path_exists_def)

lemma backup_file_copies:
  "files w (p @ py ''.bak'') = None \<Longrightarrow> copy2 p (p @ py ''.bak'') w = (Inr u, w1) \<Longrightarrow>
   backup_file p w = (True, w1)"
  by (simp add: backup_file_def path_exists_def)

lemma backup_file_fails:
  "files w (p @ py ''.bak'') = None \<Longrightarrow> copy2 p (p @ py ''.bak'') w = (Inl e, w1) \<Longrightarrow>
   backup_file p w = (False, log ERROR (Backup_failed p e) w1)"
  by (simp add: backup_file_def path_exists_def)

lemma add_tag_block_keeps:
  assumes "add_tag_block p w = (r, w1)" and "q \<noteq> p"
  shows "files w1 q = files w q"
proof -
  obtain ro wo where o: "open_container MP3 p w = (ro, wo)"
    by (cases "open_container MP3 p w")
  then have wo: "files wo = files w" by (simp add: open_container_world)
  show ?thesis
  proof (cases ro)
    case (Inl e)
    with assms(1) o wo show ?thesis by (simp add: add_tag_block_def)
  next
    case (Inr a)
    with o have fa: "filename a = p" by (simp add: open_container_Inr)
    show ?thesis
    proof (cases "add_tags a")
      case (Inl e)
      with assms(1) o \<open>ro = Inr a\<close> wo show ?thesis by (simp add: add_tag_block_def)
    next
      case (Inr a')
      with fa have "filename a' = p"
        by (auto simp: add_tags_def split: if_splits)
      moreover from assms(1) o \<open>ro = Inr a\<close> Inr have "save a' wo = (r, w1)"
        by (simp add: add_tag_block_def)
      ultimately show ?thesis using assms(2) wo by (simp add: save_other)
    qed
  qed
qed

lemma open_audio_keeps:
  assumes "open_audio ext c p dr w = (r, w1)" and "q \<noteq> p"
  shows "files w1 q = files w q"
proof -
  obtain ro wo where o: "open_container c p w = (ro, wo)"
    by (cases "open_container c p w")
  then have wo: "files wo = files w" by (simp add: open_container_world)
  show ?thesis
  proof (cases "ext = py ''.mp3'' \<and> isl ro \<and> \<not> dr")
    case False
    with assms(1) o wo show ?thesis
      by (cases ro) (auto simp: open_audio_def split: if_splits)
  next
    case True
    then obtain e where ro: "ro = Inl e" by (cases ro) auto
    obtain rt wt where t: "add_tag_block p wo = (rt, wt)"
      by (cases "add_tag_block p wo")
    with assms(2) wo have wt: "files wt q = files w q" by (simp add: add_tag_block_keeps)
    obtain r2 w2 where o2: "open_container c p wt = (r2, w2)"
      by (cases "open_container c p wt")
    then have "files w2 = files wt" by (simp add: open_container_world)
    with assms(1) True o ro t o2 wt show ?thesis
      by (cases rt; cases r2) (auto simp: open_audio_def)
  qed
qed

lemma backup_file_keeps:
  assumes "backup_file p w = (r, w1)"
  shows "files w (p @ py ''.bak'') = Some b \<Longrightarrow> files w1 = files w"
    and "q \<noteq> p @ py ''.bak'' \<Longrightarrow> files w1 q = files w q"
proof -
  show "files w1 = files w" if "files w (p @ py ''.bak'') = Some b"
    using backup_file_exists [OF that] assms by simp
  show "files w1 q = files w q" if "q \<noteq> p @ py ''.bak''"
  proof (cases "files w (p @ py ''.bak'')")
    case (Some b)
    from backup_file_exists [OF this] assms show ?thesis by simp
  next
    case None
    obtain rc wc where c: "copy2 p (p @ py ''.bak'') w = (rc, wc)"
      by (cases "copy2 p (p @ py ''.bak'') w")
    show ?thesis
    proof (cases rc)
      case (Inl e)
      with None c assms copy2_raises [of p "p @ py ''.bak''" w e wc] show ?thesis
        by (auto simp: backup_file_fails log_world)
    next
      case (Inr u)
      with None c assms copy2_copied [of p "p @ py ''.bak''" w u wc] that show ?thesis
        by (auto simp: backup_file_copies)
    qed
  qed
qed

lemma try_block_keeps_backup:
  assumes t: "try_block ext h p g dr mb w = (r, w1)"
    and b: "files w (p @ py ''.bak'') = Some b"
  shows "files w1 (p @ py ''.bak'') = Some b"
proof -
  let ?q = "p @ py ''.bak''"
  obtain c k gt st where h: "h = (c, k, gt, st)" by (cases h)
  obtain fw wo where o: "open_audio ext c p dr w = (fw, wo)"
    by (cases "open_audio ext c p dr w")
  with b have wo: "files wo ?q = Some b"
    using open_audio_keeps [OF o bak_neq] by simp
  show ?thesis
  proof (cases fw)
    case (Raise e)
    with t h o wo show ?thesis by (simp add: try_block_def)
  next
    case (Return x)
    with t h o wo show ?thesis by (simp add: try_block_def)
  next
    case (Continue a)
    with o have fa: "filename a = p" by (simp add: open_audio_filename)
    let ?w2 = "if mb then snd (backup_file p wo) else wo"
    have w2: "files ?w2 ?q = Some b"
      using wo backup_file_keeps(1) [of p wo "fst (backup_file p wo)" "snd (backup_file p wo)" b]
      by simp
    show ?thesis
    proof (cases "read_current_genre a k gt")
      case (Inl e)
      with t h o Continue wo show ?thesis by (simp add: try_block_def)
    next
      case (Inr cur)
      show ?thesis
      proof (cases "cur = Some g \<or> dr")
        case True
        with t h o Continue Inr wo show ?thesis
          by (auto simp: try_block_def log_world split: if_splits)
      next
        case False
        show ?thesis
        proof (cases "write_genre a k st g")
          case (Inl e)
          with t h o Continue \<open>read_current_genre a k gt = Inr cur\<close> False w2 show ?thesis
            by (simp add: try_block_def Let_def)
        next
          case (Inr a')
          with fa have fa': "filename a' = p" by (simp add: write_genre_tags)
          obtain rs ws where s: "save a' ?w2 = (rs, ws)"
            by (cases "save a' ?w2")
          with fa' w2 have "files ws ?q = Some b"
            using save_other [OF s, of ?q] bak_neq [of p] by simp
          with t h o Continue \<open>read_current_genre a k gt = Inr cur\<close> False Inr s show ?thesis
            by (cases rs) (simp_all add: try_block_def Let_def)
        qed
      qed
    qed
  qed
qed

lemma body_keeps_backup:
  assumes run: "set_genre_tag_body rc p g dr mb w = (r, w')"
    and b: "files w (p @ py ''.bak'') = Some b"
    and rc: "\<And>w2 r3 w3. rc w2 = (r3, w3) \<Longrightarrow> files w2 (p @ py ''.bak'') = Some b \<Longrightarrow>
        files w3 (p @ py ''.bak'') = Some b"
  shows "files w' (p @ py ''.bak'') = Some b"
proof (cases "map_of FORMAT_HANDLERS (lower (path_suffix p))")
  case None
  with run b show ?thesis
    by (auto simp: set_genre_tag_body_def Let_def log_world split: if_splits)
next
  case (Some h)
  let ?q = "p @ py ''.bak''"
  obtain rt w1 where t: "try_block (lower (path_suffix p)) h p g dr mb w = (rt, w1)"
    by (cases "try_block (lower (path_suffix p)) h p g dr mb w")
  from try_block_keeps_backup [OF t b] have w1: "files w1 ?q = Some b" .
  show ?thesis
  proof (cases rt)
    case (Inr x)
    with Some t run w1 show ?thesis by (simp add: body_returned)
  next
    case (Inl e)
    show ?thesis
    proof (cases "e = PermissionError")
      case False
      with Some t Inl run w1 show ?thesis by (auto simp: body_other_exception log_world)
    next
      case True
      show ?thesis
      proof (cases dr)
        case True
        with Some t Inl \<open>e = PermissionError\<close> run w1 show ?thesis
          by (auto simp: body_permission_dry log_world)
      next
        case False
        obtain cr w2 where c: "chmod p 436 w1 = (cr, w2)"
          by (cases "chmod p 436 w1")
        from chmod_other [OF c bak_neq] w1 have w2: "files w2 ?q = Some b" by simp
        obtain r3 w3 where r3: "rc w2 = (r3, w3)"
          by (cases "rc w2")
        from rc [OF r3 w2] have w3: "files w3 ?q = Some b" .
        from Some t Inl True False c r3 run w2 w3 show ?thesis
          by (cases cr; cases r3)
             (auto simp: body_permission_chmod_fails body_permission_retry log_world)
      qed
    qed
  qed
qed

lemma set_genre_tag_keeps_backup:
  "set_genre_tag depth p g dr mb w = (r, w') \<Longrightarrow> files w (p @ py ''.bak'') = Some b \<Longrightarrow>
   files w' (p @ py ''.bak'') = Some b"
proof (induction depth arbitrary: w r w')
  case 0
  then show ?case by (auto elim: body_keeps_backup)
next
  case (Suc depth)
  from Suc.prems(1) have "set_genre_tag_body (set_genre_tag depth p g dr mb) p g dr mb w = (r, w')"
    by simp
  then show ?case using Suc.prems(2)
    by (rule body_keeps_backup) (rule Suc.IH)
qed

lemma ex_bak_neq: "ex_path @ py ''.bak'' \<noteq> ex_path" "ex_path \<noteq> ex_path @ py ''.bak''"
  "ex_mp3 @ py ''.bak'' \<noteq> ex_mp3" "ex_mp3 \<noteq> ex_mp3 @ py ''.bak''"
  by (simp_all add: py_eq_Nil)

lemmas backup_defs = backup_file_def path_exists_def copy2_def log_def

lemma ex_run_backup:
  "set_genre_tag 1 ex_path ex_genre False True ex_world =
     (Inr True, ex_world\<lparr>files := [ex_path \<mapsto> ex_file_tagged, ex_path @ py ''.bak'' \<mapsto> ex_file],
        io_trace := [Open ex_path, Copy2 ex_path (ex_path @ py ''.bak''), Save ex_path]\<rparr>)"
  by (simp add: run_defs backup_defs ex_ext flac_handler ex_defs ex_bak_neq fun_upd_twist)

lemma ex_copy:
  "copy2 ex_path (ex_path @ py ''.bak'') (ex_world\<lparr>io_trace := [Open ex_path]\<rparr>) =
     (Inr (), ex_world\<lparr>files := [ex_path \<mapsto> ex_file, ex_path @ py ''.bak'' \<mapsto> ex_file],
        io_trace := [Open ex_path, Copy2 ex_path (ex_path @ py ''.bak'')]\<rparr>)"
  by (simp add: backup_defs io_def ex_defs)

lemma ex_second_run:
  "fst (set_genre_tag 1 ex_path (py ''Goth'') False True
     (ex_world\<lparr>files := [ex_path \<mapsto> ex_file_tagged, ex_path @ py ''.bak'' \<mapsto> ex_file],
        io_trace := [Open ex_path, Copy2 ex_path (ex_path @ py ''.bak''), Save ex_path]\<rparr>))
   = Inr True"
  by (simp add: run_defs backup_defs ex_ext flac_handler ex_defs ex_bak_neq)

end
